theory Spec2Isabelle
  imports Complex_Main
begin

section \<open>Strings and characters\<close>

text \<open>
  A Python \<^verbatim>\<open>str\<close> is modelled as a \<^typ>\<open>string\<close> whose characters are the code
  points below 256. On these code points the classes of Python's \<^verbatim>\<open>re\<close> module (for
  \<^verbatim>\<open>str\<close> patterns) are the following.
\<close>

definition code :: "char \<Rightarrow> nat" where
  "code c = of_char c"

text \<open>\<^verbatim>\<open>\d\<close> and \<^verbatim>\<open>[0-9]\<close>.\<close>

definition is_digit :: "char \<Rightarrow> bool" where
  "is_digit c = (48 \<le> code c \<and> code c \<le> 57)"

text \<open>\<^verbatim>\<open>\s\<close>, which is also what \<^verbatim>\<open>str.strip()\<close> removes.\<close>

definition is_space :: "char \<Rightarrow> bool" where
  "is_space c = (let n = code c in (9 \<le> n \<and> n \<le> 13) \<or> (28 \<le> n \<and> n \<le> 32) \<or> n = 133 \<or> n = 160)"

text \<open>\<^verbatim>\<open>\w\<close>: alphanumeric characters and the underscore.\<close>

definition is_word :: "char \<Rightarrow> bool" where
  "is_word c = (let n = code c in
     (48 \<le> n \<and> n \<le> 57) \<or> (65 \<le> n \<and> n \<le> 90) \<or> n = 95 \<or> (97 \<le> n \<and> n \<le> 122) \<or>
     n = 170 \<or> n = 178 \<or> n = 179 \<or> n = 181 \<or> n = 185 \<or> n = 186 \<or> (188 \<le> n \<and> n \<le> 190) \<or>
     (192 \<le> n \<and> n \<le> 214) \<or> (216 \<le> n \<and> n \<le> 246) \<or> 248 \<le> n)"

text \<open>Case folding, as \<^verbatim>\<open>re.I\<close> applies it to the letters of the trigger words.\<close>

definition lower :: "char \<Rightarrow> char" where
  "lower c = (if 65 \<le> code c \<and> code c \<le> 90 then char_of (code c + 32) else c)"

text \<open>\<^verbatim>\<open>s.strip()\<close>\<close>

definition strip :: "string \<Rightarrow> string" where
  "strip s = rev (dropWhile is_space (rev (dropWhile is_space s)))"

text \<open>\<^verbatim>\<open>s.replace("^", "**")\<close>\<close>

definition replace_caret :: "string \<Rightarrow> string" where
  "replace_caret s = concat (map (\<lambda>c. if c = CHR ''^'' then ''**'' else [c]) s)"

section \<open>Regular expressions with backtracking\<close>

text \<open>
  The patterns of the program are values of \<open>regex\<close>. A position of the matcher is the
  character just before it, if any (\<^verbatim>\<open>\b\<close> looks at it), and the input that remains.
  \<open>rmatch r x\<close> lists the positions where a match of \<open>r\<close> that starts at \<open>x\<close> can end, in
  the order in which the backtracking matcher of \<^verbatim>\<open>re\<close> tries them: the head of the
  list is the match that \<^verbatim>\<open>re\<close> returns.
\<close>

datatype regex =
    Cls "char \<Rightarrow> bool"
  | Eps
  | WordB
  | Seq regex regex
  | Alt regex regex
  | Star regex

type_synonym pos = "char option \<times> string"

definition word_before :: "pos \<Rightarrow> bool" where
  "word_before x = (case fst x of None \<Rightarrow> False | Some c \<Rightarrow> is_word c)"

definition word_after :: "pos \<Rightarrow> bool" where
  "word_after x = (case snd x of [] \<Rightarrow> False | c # _ \<Rightarrow> is_word c)"

function rmatch :: "regex \<Rightarrow> pos \<Rightarrow> pos list" where
  "rmatch (Cls p) x = (case snd x of [] \<Rightarrow> [] | c # cs \<Rightarrow> if p c then [(Some c, cs)] else [])"
| "rmatch Eps x = [x]"
| "rmatch WordB x = (if word_before x = word_after x then [] else [x])"
| "rmatch (Seq a b) x = concat (map (rmatch b) (rmatch a x))"
| "rmatch (Alt a b) x = rmatch a x @ rmatch b x"
| "rmatch (Star a) x =
     concat (map (\<lambda>y. if length (snd y) < length (snd x) then rmatch (Star a) y else [])
                 (rmatch a x)) @ [x]"
  by pat_completeness auto
termination
  by (relation "measures [\<lambda>(r, x). size r, \<lambda>(r, x). length (snd x)]") auto

text \<open>\<^verbatim>\<open>r+\<close>, \<^verbatim>\<open>r?\<close> (both greedy) and a literal word, matched with \<^verbatim>\<open>re.I\<close>.\<close>

definition Plus :: "regex \<Rightarrow> regex" where
  "Plus r = Seq r (Star r)"

definition Opt :: "regex \<Rightarrow> regex" where
  "Opt r = Alt r Eps"

fun Lit_i :: "string \<Rightarrow> regex" where
  "Lit_i [] = Eps"
| "Lit_i (c # cs) = Seq (Cls (\<lambda>d. lower d = lower c)) (Lit_i cs)"

text \<open>
  \<^verbatim>\<open>re.search\<close>, as a truth value: the leftmost start position with a match.
  \<^verbatim>\<open>re.fullmatch\<close>: some match from the start ends at the end of the input.
\<close>

fun search_from :: "regex \<Rightarrow> char option \<Rightarrow> string \<Rightarrow> bool" where
  "search_from r prev [] = (rmatch r (prev, []) \<noteq> [])"
| "search_from r prev (c # cs) = (if rmatch r (prev, c # cs) \<noteq> [] then True else search_from r (Some c) cs)"

definition re_search :: "regex \<Rightarrow> string \<Rightarrow> bool" where
  "re_search r s = search_from r None s"

definition re_fullmatch :: "regex \<Rightarrow> string \<Rightarrow> bool" where
  "re_fullmatch r s = list_ex (\<lambda>y. snd y = []) (rmatch r (None, s))"

text \<open>
  \<^verbatim>\<open>[m.group(0) for m in r.finditer(s)]\<close>: the matches from left to right, each search
  starting where the previous match ended. (After an empty match the scan moves on by one
  character; the pattern this program scans with matches no empty string.)
\<close>

function finditer_from :: "regex \<Rightarrow> char option \<Rightarrow> string \<Rightarrow> string list" where
  "finditer_from r prev s =
     (case rmatch r (prev, s) of
        [] \<Rightarrow> (case s of [] \<Rightarrow> [] | c # cs \<Rightarrow> finditer_from r (Some c) cs)
      | y # _ \<Rightarrow>
          if length (snd y) < length s
          then take (length s - length (snd y)) s # finditer_from r (fst y) (snd y)
          else [] # (case s of [] \<Rightarrow> [] | c # cs \<Rightarrow> finditer_from r (Some c) cs))"
  by pat_completeness auto
termination
  by (relation "measure (\<lambda>(r, prev, s). length s)") auto

definition finditer :: "regex \<Rightarrow> string \<Rightarrow> string list" where
  "finditer r s = finditer_from r None s"

fun Seqs :: "regex list \<Rightarrow> regex" where
  "Seqs [] = Eps"
| "Seqs [r] = r"
| "Seqs (r # rs) = Seq r (Seqs rs)"

fun Alts :: "regex list \<Rightarrow> regex" where
  "Alts [] = Cls (\<lambda>_. False)"
| "Alts [r] = r"
| "Alts (r # rs) = Alt r (Alts rs)"

definition one_of :: "string \<Rightarrow> regex" where
  "one_of cs = Cls (\<lambda>c. c \<in> set cs)"

section \<open>Exceptions and payloads\<close>

text \<open>
  An exception is its class name and its message; \<^verbatim>\<open>str(e)\<close> is the message. A function
  that can raise returns \<open>exn + 'a\<close>, with \<open>Inl\<close> for the exception raised.
\<close>

datatype exn = Exn (cls: string) (msg: string)

definition ValueError :: "string \<Rightarrow> exn" where
  "ValueError m = Exn ''ValueError'' m"

text \<open>
  The values that appear in the dictionaries the handlers return, and the dictionaries
  themselves (keys are strings).
\<close>

datatype pyval = PNone | PInt int | PStr string | PList "pyval list"

type_synonym payload = "string \<rightharpoonup> pyval"

definition mk_payload :: "string \<Rightarrow> string \<Rightarrow> string list \<Rightarrow> payload" where
  "mk_payload m a srcs =
     [''mode'' \<mapsto> PStr m, ''answer'' \<mapsto> PStr a, ''sources'' \<mapsto> PList (map PStr srcs)]"

section \<open>Router: \<open>decide_mode\<close>\<close>

text \<open>\<^verbatim>\<open>[0-9]+\s*[\+\-\*\/\^\%]\s*[0-9]+\<close>\<close>

definition ARITH :: regex where
  "ARITH = Seqs [Plus (Cls is_digit), Star (Cls is_space), one_of ''+-*/^%'',
                 Star (Cls is_space), Plus (Cls is_digit)]"

text \<open>\<^verbatim>\<open>\b(calc|compute|what is|how many)\b\<close>, compiled with \<^verbatim>\<open>re.I\<close>\<close>

definition TRIGGER :: regex where
  "TRIGGER = Seqs [WordB, Alts [Lit_i ''calc'', Lit_i ''compute'', Lit_i ''what is'', Lit_i ''how many''],
                   WordB]"

definition decide_mode :: "string \<Rightarrow> string" where
  "decide_mode query =
     (if re_search ARITH query \<or> re_search TRIGGER query then ''math'' else ''search'')"

section \<open>Math helper\<close>

text \<open>The pattern \<^verbatim>\<open>MATH_SEQ\<close> (written with \<^verbatim>\<open>re.VERBOSE\<close>).\<close>

definition MATH_SEQ :: regex where
  "MATH_SEQ = Plus (Alts [
      Seq (Alts [Seqs [Plus (Cls is_digit), one_of ''.'', Star (Cls is_digit)],
                 Seq (one_of ''.'') (Plus (Cls is_digit)),
                 Plus (Cls is_digit)])
          (Opt (Seqs [one_of ''eE'', Opt (one_of ''+-''), Plus (Cls is_digit)])),
      one_of ''+-*/%()'',
      Plus (Cls is_space)])"

text \<open>\<^verbatim>\<open>[0-9\.\+\-\*\/\%\(\)\seE]+\<close>, the check of \<^verbatim>\<open>eval_math\<close>.\<close>

definition SAFE_CHARS :: regex where
  "SAFE_CHARS = Plus (Cls (\<lambda>c. is_digit c \<or> c \<in> set ''.+-*/%()'' \<or> is_space c \<or> c \<in> set ''eE''))"

text \<open>
  A Python \<^verbatim>\<open>float\<close> is given by the digits that \<^verbatim>\<open>repr\<close> prints for it: \<open>Fin neg ds p\<close>
  is the float whose shortest decimal digit string is \<open>ds\<close> (the digits of zero are
  \<open>[0]\<close>), with the decimal point after the first \<open>p\<close> digits: its value is
  \<open>0.d\<^sub>1d\<^sub>2\<dots> \<times> 10\<^sup>p\<close>. So \<open>1280.0\<close> is \<open>Fin False [1, 2, 8] 4\<close>.
\<close>

datatype pyfloat = Fin bool "nat list" int | Inf bool | NaN

definition digit_char :: "nat \<Rightarrow> char" where
  "digit_char d = char_of (48 + d)"

function dec :: "nat \<Rightarrow> string" where
  "dec n = (if n < 10 then [digit_char n] else dec (n div 10) @ [digit_char (n mod 10)])"
  by pat_completeness auto
termination
  by (relation "measure id") auto

text \<open>
  \<^verbatim>\<open>str(x)\<close> for a float \<open>x\<close> (the \<^verbatim>\<open>repr\<close> format): exponent notation when the decimal
  point lies more than 16 digits to the right of the first digit or at least 4 to its
  left, else positional notation, with \<^verbatim>\<open>.0\<close> after an integer.
\<close>

definition float_str :: "pyfloat \<Rightarrow> string" where
  "float_str x = (case x of
       NaN \<Rightarrow> ''nan''
     | Inf neg \<Rightarrow> (if neg then ''-inf'' else ''inf'')
     | Fin neg ds p \<Rightarrow>
         (if neg then ''-'' else []) @
         (let cs = map digit_char ds; n = int (length ds) in
          if p \<le> - 4 \<or> 16 < p then
            take 1 cs @ (if 1 < n then ''.'' @ drop 1 cs else []) @ ''e'' @
            (if p - 1 < 0 then ''-'' else ''+'') @
            (let e = dec (nat \<bar>p - 1\<bar>) in if length e < 2 then ''0'' @ e else e)
          else if p \<le> 0 then ''0.'' @ replicate (nat (- p)) CHR ''0'' @ cs
          else if n \<le> p then cs @ replicate (nat (p - n)) CHR ''0'' @ ''.0''
          else take (nat p) cs @ ''.'' @ drop (nat p) cs))"

text \<open>
  The evaluator \<^verbatim>\<open>numexpr\<close> is a library outside the program. It is a parameter of the
  model: \<open>evaluate\<close> is \<^verbatim>\<open>ne.evaluate(expr)\<close>, \<open>float_of\<close> is \<^verbatim>\<open>float(result)\<close> and
  \<open>item_float\<close> is \<^verbatim>\<open>float(result.item())\<close>.
\<close>

record 'r numexpr =
  evaluate :: "string \<Rightarrow> exn + 'r"
  float_of :: "'r \<Rightarrow> exn + pyfloat"
  item_float :: "'r \<Rightarrow> exn + pyfloat"

definition eval_math :: "'r numexpr \<Rightarrow> string \<Rightarrow> exn + pyfloat" where
  "eval_math ne expr0 =
     (let expr = replace_caret (strip expr0) in
      if \<not> re_fullmatch SAFE_CHARS expr
      then Inl (ValueError ''Invalid characters in expression.'')
      else case evaluate ne expr of
             Inl e \<Rightarrow> Inl e
           | Inr result \<Rightarrow>
               (case float_of ne result of
                  Inr v \<Rightarrow> Inr v
                | Inl _ \<Rightarrow> item_float ne result))"

text \<open>\<^verbatim>\<open>max(xs, key=len)\<close> on a list that is not empty: the first of the longest.\<close>

definition max_by_len :: "string list \<Rightarrow> string" where
  "max_by_len xs = foldl (\<lambda>best x. if length best < length x then x else best) (hd xs) (tl xs)"

definition run_math :: "'r numexpr \<Rightarrow> string \<Rightarrow> exn + payload" where
  "run_math ne query =
     (let q = replace_caret query;
          matches = finditer MATH_SEQ q
      in if matches = [] then Inl (ValueError ''No math expression found.'')
         else let expr = strip (max_by_len matches) in
              case eval_math ne expr of
                Inl e \<Rightarrow> Inl e
              | Inr v \<Rightarrow> Inr (mk_payload ''math'' (float_str v) []))"

section \<open>Search helper\<close>

subsection \<open>\<open>with_retries\<close>\<close>

text \<open>
  The operation is given by the outcome of each of its invocations: \<open>fn k\<close> is what the
  invocation number \<open>k\<close> (from 0) returns or raises. \<open>retryable\<close> says which exceptions
  the \<^verbatim>\<open>except\<close> clause catches. Besides its outcome, \<open>with_retries\<close> returns what it
  did, in order: the invocations of the operation and the calls of \<^verbatim>\<open>time.sleep\<close>.

  Delays are Python floats, and the library decides what \<^verbatim>\<open>time.sleep\<close> does with one.
  Both are parameters of the model: \<open>'d\<close> is the type of the delays, \<open>sleep clk d\<close> is
  \<open>None\<close> when \<^verbatim>\<open>time.sleep(d)\<close> returns and the exception it raises otherwise (on a
  negative delay, or one too large), \<open>mult clk\<close> is the product of two floats, and
  \<open>literal clk q\<close> is the float that a decimal literal of value \<open>q\<close> denotes. The call of
  \<^verbatim>\<open>time.sleep\<close> stands in the \<^verbatim>\<open>except\<close> clause, so what it raises leaves
  \<open>with_retries\<close> at once.
\<close>

record 'd clock =
  sleep :: "'d \<Rightarrow> exn option"
  mult :: "'d \<Rightarrow> 'd \<Rightarrow> 'd"
  literal :: "rat \<Rightarrow> 'd"

datatype 'd event = Invoke | Sleep 'd

definition raise_None :: exn where
  "raise_None = Exn ''TypeError'' ''exceptions must derive from BaseException''"

fun retry_loop ::
  "'d clock \<Rightarrow> (nat \<Rightarrow> exn + 'a) \<Rightarrow> (exn \<Rightarrow> bool) \<Rightarrow> int \<Rightarrow> 'd \<Rightarrow> nat list \<Rightarrow> 'd \<Rightarrow> exn option
     \<Rightarrow> (exn + 'a) \<times> 'd event list" where
  "retry_loop clk fn retryable tries backoff [] delay last_err =
     (case last_err of None \<Rightarrow> (Inl raise_None, []) | Some e \<Rightarrow> (Inl e, []))"
| "retry_loop clk fn retryable tries backoff (i # rest) delay last_err =
     (case fn i of
        Inr v \<Rightarrow> (Inr v, [Invoke])
      | Inl e \<Rightarrow>
          if \<not> retryable e then (Inl e, [Invoke])
          else if int i < tries - 1 then
            (case sleep clk delay of
               Some err \<Rightarrow> (Inl err, [Invoke, Sleep delay])
             | None \<Rightarrow>
                 let (r, evs) = retry_loop clk fn retryable tries backoff rest
                                  (mult clk delay backoff) (Some e)
                 in (r, Invoke # Sleep delay # evs))
          else let (r, evs) = retry_loop clk fn retryable tries backoff rest delay (Some e)
               in (r, Invoke # evs))"

definition with_retries ::
  "'d clock \<Rightarrow> (nat \<Rightarrow> exn + 'a) \<Rightarrow> int \<Rightarrow> 'd \<Rightarrow> 'd \<Rightarrow> (exn \<Rightarrow> bool)
     \<Rightarrow> (exn + 'a) \<times> 'd event list" where
  "with_retries clk fn tries delay backoff retryable =
     retry_loop clk fn retryable tries backoff [0 ..< nat tries] delay None"

definition invocations :: "'d event list \<Rightarrow> nat" where
  "invocations evs = length (filter (\<lambda>e. e = Invoke) evs)"

subsection \<open>\<open>run_search\<close>\<close>

text \<open>
  What \<^verbatim>\<open>it.get(key)\<close> gives for an item of the result list: the key is missing, its
  value is \<^verbatim>\<open>None\<close>, or it is a string. The search capability returns a dictionary,
  which may have the key \<^verbatim>\<open>results\<close>, or the list itself.
\<close>

datatype field = Missing | Null | Str string

record item =
  url :: field
  title :: field
  content :: field

datatype results = Wrapper "item list option" | Bare "item list"

text \<open>\<^verbatim>\<open>it.get(key) or ""\<close> and, for the text of the prompt, \<^verbatim>\<open>it.get(key, "")\<close>.\<close>

definition or_empty :: "field \<Rightarrow> string" where
  "or_empty f = (case f of Str s \<Rightarrow> s | _ \<Rightarrow> [])"

definition get_default_empty :: "field \<Rightarrow> string" where
  "get_default_empty f = (case f of Missing \<Rightarrow> [] | Null \<Rightarrow> ''None'' | Str s \<Rightarrow> s)"

definition items_of :: "results \<Rightarrow> item list" where
  "items_of res = (case res of Wrapper None \<Rightarrow> [] | Wrapper (Some xs) \<Rightarrow> xs | Bare xs \<Rightarrow> xs)"

definition item_url :: "item \<Rightarrow> string" where
  "item_url it = strip (or_empty (url it))"

text \<open>The loop that fills \<^verbatim>\<open>seen\<close> and \<^verbatim>\<open>sources\<close>, with its \<^verbatim>\<open>break\<close>.\<close>

fun collect_sources :: "item list \<Rightarrow> string set \<Rightarrow> string list \<Rightarrow> string list" where
  "collect_sources [] seen srcs = srcs"
| "collect_sources (it # items) seen srcs =
     (let u = item_url it;
          fresh = (u \<noteq> [] \<and> u \<notin> seen);
          seen' = (if fresh then insert u seen else seen);
          srcs' = (if fresh then srcs @ [u] else srcs)
      in if length srcs' = 3 then srcs' else collect_sources items seen' srcs')"

definition newline :: char where
  "newline = char_of (10 :: nat)"

definition snippet :: "item \<Rightarrow> string" where
  "snippet it =
     (let t = take 120 (or_empty (title it));
          c = take 600 (map (\<lambda>ch. if ch = newline then CHR '' '' else ch) (or_empty (content it)));
          u = get_default_empty (url it)
      in ''TITLE: '' @ t @ [newline] @ ''SNIPPET: '' @ c @ [newline] @ ''URL: '' @ u)"

fun join :: "string \<Rightarrow> string list \<Rightarrow> string" where
  "join sep [] = []"
| "join sep [x] = x"
| "join sep (x # xs) = x @ sep @ join sep xs"

definition prompt_for :: "string \<Rightarrow> item list \<Rightarrow> string" where
  "prompt_for query items =
     ''You are a concise researcher. Using ONLY the information in the snippets below, '' @
     ''write EXACTLY three bullet points answering the user's query. '' @
     ''No speculation. If insufficient evidence, say so.'' @ [newline, newline] @
     ''USER QUERY:'' @ [newline] @ query @ [newline, newline] @ ''SNIPPETS:'' @ [newline] @
     join ([newline, newline] @ ''---'' @ [newline, newline]) (map snippet (take 3 items))"

text \<open>
  The two capabilities are parameters: \<open>tavily\<close> is \<open>None\<close> when no key is set, else
  \<open>search query max_results k\<close> is the outcome of the invocation number \<open>k\<close> of
  \<^verbatim>\<open>tavily.search\<close>; \<open>llm\<close> is \<^verbatim>\<open>llm.invoke(prompt).content\<close>. With them comes
  the clock of the retries.
\<close>

record 'd capabilities =
  tavily :: "(string \<Rightarrow> int \<Rightarrow> nat \<Rightarrow> exn + results) option"
  llm :: "string \<Rightarrow> exn + string"
  clock :: "'d clock"

text \<open>
  \<^verbatim>\<open>with_retries(tavily.search, tries=3, delay=0.6, backoff=1.8, exceptions=(Exception,), ...)\<close>
\<close>

definition search_with_retries ::
  "'d capabilities \<Rightarrow> (nat \<Rightarrow> exn + results) \<Rightarrow> (exn + results) \<times> 'd event list" where
  "search_with_retries cap fn =
     with_retries (clock cap) fn 3 (literal (clock cap) (6 / 10)) (literal (clock cap) (18 / 10))
       (\<lambda>_. True)"

definition search_failed :: "exn \<Rightarrow> payload" where
  "search_failed e = mk_payload ''error'' (''Search failed: '' @ msg e) []"

definition run_search :: "'d capabilities \<Rightarrow> string \<Rightarrow> int \<Rightarrow> payload" where
  "run_search cap query max_results =
     (case tavily cap of
        None \<Rightarrow> mk_payload ''error'' ''Tavily API key not set.'' []
      | Some search \<Rightarrow>
          (case fst (search_with_retries cap (search query max_results)) of
             Inl e \<Rightarrow> search_failed e
           | Inr res \<Rightarrow>
               (let items = items_of res;
                    srcs = collect_sources items {} []
                in case llm cap (prompt_for query items) of
                     Inl e \<Rightarrow> search_failed e
                   | Inr summary \<Rightarrow> mk_payload ''search'' (strip summary) srcs)))"

section \<open>Validation\<close>

text \<open>
  \<^verbatim>\<open>AgentResponse(**payload)\<close>, as the validation library does it: \<^verbatim>\<open>mode\<close> and
  \<^verbatim>\<open>answer\<close> must be there and be strings, \<^verbatim>\<open>sources\<close> is a list of strings and
  defaults to the empty list, other keys are ignored, and the validator of \<^verbatim>\<open>mode\<close>
  runs on a mode that is a string. The errors of all fields are collected.
\<close>

record agent_response =
  mode :: string
  answer :: string
  sources :: "string list"

datatype verr = Field_required string | Wrong_type string

definition valid_mode :: "string \<Rightarrow> string" where
  "valid_mode v = (if v \<in> {''math'', ''search'', ''error''} then v else ''error'')"

definition str_field :: "payload \<Rightarrow> string \<Rightarrow> verr list + string" where
  "str_field p k = (case p k of
       None \<Rightarrow> Inl [Field_required k]
     | Some (PStr s) \<Rightarrow> Inr s
     | Some _ \<Rightarrow> Inl [Wrong_type k])"

fun str_items :: "pyval list \<Rightarrow> string list option" where
  "str_items [] = Some []"
| "str_items (PStr s # vs) = (case str_items vs of None \<Rightarrow> None | Some ss \<Rightarrow> Some (s # ss))"
| "str_items (_ # vs) = None"

definition list_field :: "payload \<Rightarrow> string \<Rightarrow> verr list + string list" where
  "list_field p k = (case p k of
       None \<Rightarrow> Inr []
     | Some (PList vs) \<Rightarrow> (case str_items vs of None \<Rightarrow> Inl [Wrong_type k] | Some ss \<Rightarrow> Inr ss)
     | Some _ \<Rightarrow> Inl [Wrong_type k])"

definition errors_of :: "verr list + 'a \<Rightarrow> verr list" where
  "errors_of r = (case r of Inl es \<Rightarrow> es | Inr _ \<Rightarrow> [])"

definition AgentResponse :: "payload \<Rightarrow> verr list + agent_response" where
  "AgentResponse p =
     (let m = str_field p ''mode''; a = str_field p ''answer''; s = list_field p ''sources'' in
      case (m, a, s) of
        (Inr m', Inr a', Inr s') \<Rightarrow> Inr \<lparr>mode = valid_mode m', answer = a', sources = s'\<rparr>
      | _ \<Rightarrow> Inl (errors_of m @ errors_of a @ errors_of s))"

definition model_dump :: "agent_response \<Rightarrow> payload" where
  "model_dump r = mk_payload (mode r) (answer r) (sources r)"

text \<open>
  The text of a \<^verbatim>\<open>ValidationError\<close> is the library's: \<open>describe\<close>, a parameter, gives
  it.
\<close>

definition safe_return :: "(verr list \<Rightarrow> string) \<Rightarrow> payload \<Rightarrow> payload" where
  "safe_return describe p =
     (case AgentResponse p of
        Inr r \<Rightarrow> model_dump r
      | Inl errs \<Rightarrow> mk_payload ''error'' (''Invalid payload: '' @ describe errs) [])"

section \<open>Router: \<open>answer_query\<close>\<close>

record ('r, 'd) world =
  ne :: "'r numexpr"
  caps :: "'d capabilities"
  describe :: "verr list \<Rightarrow> string"

definition answer_query :: "('r, 'd) world \<Rightarrow> string \<Rightarrow> exn + payload" where
  "answer_query w query =
     (let m = decide_mode query in
      case (if m = ''math'' then run_math (ne w) query else Inr (run_search (caps w) query 5)) of
        Inl e \<Rightarrow> Inl e
      | Inr out \<Rightarrow> Inr (safe_return (describe w) out))"

section \<open>The specification's notions\<close>




text \<open>The elements of a list in the order of their first occurrences.\<close>

function first_seen :: "'a list \<Rightarrow> 'a list" where
  "first_seen [] = []"
| "first_seen (x # xs) = x # first_seen (filter (\<lambda>y. y \<noteq> x) xs)"
  by pat_completeness auto
termination
  by (relation "measure length") (auto simp: less_Suc_eq_le)

section \<open>Sample inputs\<close>

text \<open>
  A clock on rational delays, a result list with a repeated, a padded and a missing URL,
  and capabilities whose search fails once and then returns that list.
\<close>

definition sample_clock :: "rat clock" where
  "sample_clock =
     \<lparr>sleep = (\<lambda>d. if d < 0 then Some (ValueError ''sleep length must be non-negative'') else None),
      mult = (\<lambda>a b. a * b), literal = (\<lambda>q. q)\<rparr>"

definition sample_items :: "item list" where
  "sample_items =
     [\<lparr>url = Str ''  http://a '', title = Str ''A'', content = Str ''first''\<rparr>,
      \<lparr>url = Null, title = Missing, content = Str ''no url''\<rparr>,
      \<lparr>url = Str ''http://a'', title = Str ''A again'', content = Str ''second''\<rparr>,
      \<lparr>url = Str ''http://b'', title = Str ''B'', content = Str ''third''\<rparr>,
      \<lparr>url = Str ''http://c'', title = Str ''C'', content = Str ''fourth''\<rparr>,
      \<lparr>url = Str ''http://d'', title = Str ''D'', content = Str ''fifth''\<rparr>]"

definition sample_search :: "string \<Rightarrow> int \<Rightarrow> nat \<Rightarrow> exn + results" where
  "sample_search q n k =
     (if k = 0 then Inl (Exn ''TimeoutError'' ''timed out'') else Inr (Wrapper (Some sample_items)))"

definition sample_capabilities :: "rat capabilities" where
  "sample_capabilities =
     \<lparr>tavily = Some sample_search, llm = (\<lambda>p. Inr '' - one ''), clock = sample_clock\<rparr>"

section \<open>Properties of the validator\<close>

lemma mk_payload_apply:
  "mk_payload m a ss ''mode'' = Some (PStr m)"
  "mk_payload m a ss ''answer'' = Some (PStr a)"
  "mk_payload m a ss ''sources'' = Some (PList (map PStr ss))"
  by (simp_all add: mk_payload_def)

lemma str_items_map: "str_items (map PStr ss) = Some ss"
  by (induction ss) simp_all

lemma valid_mode_idem: "valid_mode (valid_mode v) = valid_mode v"
  by (simp add: valid_mode_def)

lemma AgentResponse_mk:
  "AgentResponse (mk_payload m a ss) = Inr \<lparr>mode = valid_mode m, answer = a, sources = ss\<rparr>"
  by (simp add: AgentResponse_def str_field_def list_field_def mk_payload_apply str_items_map)

lemma safe_return_mk: "safe_return d (mk_payload m a ss) = mk_payload (valid_mode m) a ss"
  by (simp add: safe_return_def AgentResponse_mk model_dump_def)

text \<open>
  C8: for every payload whose \<^verbatim>\<open>mode\<close> is a string outside \<^verbatim>\<open>math\<close>, \<^verbatim>\<open>search\<close>,
  \<^verbatim>\<open>error\<close>, the mode of what \<open>safe_return\<close> returns is \<^verbatim>\<open>error\<close>: the invalid mode is
  not passed through. The payload is not rejected for it either: when its answer and its
  sources are well-formed, they are returned unchanged beside the coerced mode.
\<close>

theorem safe_return_coerces_mode:
  assumes "p ''mode'' = Some (PStr m)" and "m \<notin> {''math'', ''search'', ''error''}"
  shows "safe_return d p ''mode'' = Some (PStr ''error'') \<and>
         (\<forall>a ss. p ''answer'' = Some (PStr a) \<and> p ''sources'' = Some (PList (map PStr ss))
            \<longrightarrow> safe_return d p = mk_payload ''error'' a ss)"
proof -
  have vm: "valid_mode m = ''error''"
    using assms(2) by (simp add: valid_mode_def)
  have coerced: "safe_return d p ''mode'' = Some (PStr ''error'')"
    using assms(1) vm
    by (cases "AgentResponse p")
       (auto simp: safe_return_def model_dump_def mk_payload_apply AgentResponse_def
                   str_field_def Let_def
             split: sum.splits)
  have kept: "safe_return d p = mk_payload ''error'' a ss"
    if "p ''answer'' = Some (PStr a)" "p ''sources'' = Some (PList (map PStr ss))" for a ss
    using that assms(1) vm
    by (simp add: safe_return_def AgentResponse_def str_field_def list_field_def str_items_map
                  model_dump_def Let_def)
  from coerced kept show ?thesis by blast
qed

theorem safe_return_coerces_mode_witness:
  "safe_return (\<lambda>_. ''reason'')
     [''mode'' \<mapsto> PStr ''bogus'', ''answer'' \<mapsto> PStr ''x'', ''sources'' \<mapsto> PList []]
   = mk_payload ''error'' ''x'' []"
  using safe_return_coerces_mode
    [of "[''mode'' \<mapsto> PStr ''bogus'', ''answer'' \<mapsto> PStr ''x'', ''sources'' \<mapsto> PList []]"
        "''bogus''" "\<lambda>_. ''reason''"]
  by simp

text \<open>
  C9: \<open>safe_return\<close> is idempotent: applied to its own result it returns that result.
  This holds for every payload, so in particular for every payload that \<open>safe_return\<close>
  accepts as valid.
\<close>

theorem safe_return_idempotent: "safe_return d (safe_return d p) = safe_return d p"
proof (cases "AgentResponse p")
  case (Inl errs)
  then show ?thesis
    by (simp add: safe_return_def[of d p] safe_return_mk valid_mode_def)
next
  case (Inr r)
  then have m: "mode r = valid_mode (mode r)"
    by (auto simp: AgentResponse_def Let_def valid_mode_idem split: sum.splits)
  from Inr have "safe_return d p = mk_payload (mode r) (answer r) (sources r)"
    by (simp add: safe_return_def model_dump_def)
  then show ?thesis
    using m by (simp add: safe_return_mk)
qed

section \<open>Properties of \<open>with_retries\<close>\<close>

text \<open>
  C7: with \<^verbatim>\<open>tries=3\<close> and an operation whose first three invocations each raise an
  exception the \<^verbatim>\<open>except\<close> clause catches, \<open>with_retries\<close> invokes the operation
  exactly three times and then raises the exception of the third invocation, the last
  one captured. It sleeps between the invocations, not after the last; the two calls of
  \<^verbatim>\<open>time.sleep\<close>, on the delay and on the delay times the backoff, are taken to return
  (as they do for the delays of the program, 0.6 and 1.8 times 0.6).
\<close>

theorem with_retries_exhausted:
  assumes "fn 0 = Inl e0" "fn 1 = Inl e1" "fn 2 = Inl e2"
    and "retryable e0" "retryable e1" "retryable e2"
    and "sleep clk delay = None" "sleep clk (mult clk delay backoff) = None"
  shows "with_retries clk fn 3 delay backoff retryable =
           (Inl e2, [Invoke, Sleep delay, Invoke, Sleep (mult clk delay backoff), Invoke]) \<and>
         invocations (snd (with_retries clk fn 3 delay backoff retryable)) = 3"
proof -
  have idx: "[0 ..< (3::nat)] = [0, 1, 2]"
    by (simp add: upt_rec)
  have "with_retries clk fn 3 delay backoff retryable =
          (Inl e2, [Invoke, Sleep delay, Invoke, Sleep (mult clk delay backoff), Invoke])"
    using assms by (simp add: with_retries_def idx)
  then show ?thesis
    by (simp add: invocations_def)
qed

theorem with_retries_exhausted_witness:
  "with_retries
     \<lparr>sleep = (\<lambda>d. if d < 0 then Some (ValueError ''sleep length must be non-negative'')
                    else if 9000000000 < d then Some (Exn ''OverflowError'' ''timestamp too large'')
                    else None),
      mult = (\<lambda>a b. a * b), literal = (\<lambda>q. q)\<rparr>
     (\<lambda>k. Inl (Exn ''TimeoutError'' ''timed out'') :: exn + unit) 3 (6 / 10) (18 / 10) (\<lambda>_. True)
   = (Inl (Exn ''TimeoutError'' ''timed out''),
      [Invoke, Sleep (6 / 10), Invoke, Sleep (27 / 25), Invoke])"
  using with_retries_exhausted
    [of "\<lambda>k. Inl (Exn ''TimeoutError'' ''timed out'') :: exn + unit"
        "Exn ''TimeoutError'' ''timed out''" "Exn ''TimeoutError'' ''timed out''"
        "Exn ''TimeoutError'' ''timed out''" "\<lambda>_. True"
        "\<lparr>sleep = (\<lambda>d. if d < 0 then Some (ValueError ''sleep length must be non-negative'')
                       else if 9000000000 < d then Some (Exn ''OverflowError'' ''timestamp too large'')
                       else None),
          mult = (\<lambda>a b. a * b), literal = (\<lambda>q. q)\<rparr>"
        "6 / 10" "18 / 10"]
  by simp

text \<open>
  C10: with \<^verbatim>\<open>tries=0\<close> the loop body never runs: the operation is not invoked, nothing
  is slept, and the call fails with the \<^verbatim>\<open>TypeError\<close> of raising \<^verbatim>\<open>None\<close>, whatever the
  operation is.
\<close>

theorem with_retries_zero_tries:
  "with_retries clk fn 0 delay backoff retryable =
     (Inl (Exn ''TypeError'' ''exceptions must derive from BaseException''), []) \<and>
   invocations (snd (with_retries clk fn 0 delay backoff retryable)) = 0"
  by (simp add: with_retries_def raise_None_def invocations_def)

section \<open>Properties of the math helper\<close>

lemma float_str_mark:
  "CHR ''.'' \<in> set (float_str v) \<or> CHR ''e'' \<in> set (float_str v) \<or> CHR ''n'' \<in> set (float_str v)"
  by (cases v) (auto simp: float_str_def Let_def)

lemma float_str_not_1280: "float_str v \<noteq> ''1280''"
proof
  assume "float_str v = ''1280''"
  with float_str_mark[of v] show False by simp
qed

text \<open>
  C3, as the code has it: when the evaluator computes 1280 for \<^verbatim>\<open>(23*47)+199\<close>, so that
  \<^verbatim>\<open>float(result)\<close> is the float 1280.0, \<open>run_math\<close> returns the mode \<^verbatim>\<open>math\<close>, no
  sources, and the answer \<^verbatim>\<open>1280.0\<close>: the text of a float, not \<^verbatim>\<open>1280\<close>.
\<close>

theorem run_math_1280:
  assumes "evaluate lib ''(23*47)+199'' = Inr r"
    and "float_of lib r = Inr (Fin False [1, 2, 8] 4)"
  shows "run_math lib ''(23*47)+199'' = Inr (mk_payload ''math'' ''1280.0'' [])"
proof -
  have scan: "finditer MATH_SEQ (replace_caret ''(23*47)+199'') = [''(23*47)+199'']"
    by code_simp
  have expr: "replace_caret (strip (strip (max_by_len [''(23*47)+199'']))) = ''(23*47)+199''"
    by code_simp
  have safe: "re_fullmatch SAFE_CHARS ''(23*47)+199''"
    by code_simp
  have shown: "float_str (Fin False [1, 2, 8] 4) = ''1280.0''"
    by code_simp
  show ?thesis
    using assms
    by (simp add: run_math_def scan eval_math_def expr safe shown Let_def del: One_nat_def)
qed

theorem run_math_1280_witness:
  "run_math \<lparr>evaluate = (\<lambda>_. Inr (1280 :: int)), float_of = (\<lambda>_. Inr (Fin False [1, 2, 8] 4)),
              item_float = (\<lambda>_. Inr (Fin False [1, 2, 8] 4))\<rparr> ''(23*47)+199''
   = Inr (mk_payload ''math'' ''1280.0'' [])"
  using run_math_1280
    [of "\<lparr>evaluate = (\<lambda>_. Inr (1280 :: int)), float_of = (\<lambda>_. Inr (Fin False [1, 2, 8] 4)),
          item_float = (\<lambda>_. Inr (Fin False [1, 2, 8] 4))\<rparr>" 1280]
  by simp

text \<open>
  Whatever the evaluator does, \<open>run_math\<close> does not return the answer \<^verbatim>\<open>1280\<close> for
  \<^verbatim>\<open>(23*47)+199\<close>: the answer is the text of a float, which has a point, an exponent,
  or is \<^verbatim>\<open>inf\<close> or \<^verbatim>\<open>nan\<close>.
\<close>

theorem run_math_1280_counterexample:
  "\<not> (\<exists>lib :: int numexpr. run_math lib ''(23*47)+199'' = Inr (mk_payload ''math'' ''1280'' []))"
proof
  assume "\<exists>lib :: int numexpr. run_math lib ''(23*47)+199'' = Inr (mk_payload ''math'' ''1280'' [])"
  then obtain lib :: "int numexpr"
    where h: "run_math lib ''(23*47)+199'' = Inr (mk_payload ''math'' ''1280'' [])"
    by blast
  have scan: "finditer MATH_SEQ (replace_caret ''(23*47)+199'') = [''(23*47)+199'']"
    by code_simp
  from h obtain v where "mk_payload ''math'' (float_str v) [] = mk_payload ''math'' ''1280'' []"
    by (auto simp: run_math_def scan Let_def split: sum.splits)
  then have "mk_payload ''math'' (float_str v) [] ''answer'' = mk_payload ''math'' ''1280'' [] ''answer''"
    by simp
  then have "float_str v = ''1280''"
    by (simp add: mk_payload_apply)
  with float_str_not_1280 show False
    by blast
qed

text \<open>
  C4: for \<^verbatim>\<open>what is 10/0\<close> the expression extracted is \<^verbatim>\<open>10/0\<close>, it passes the
  character check, and the exception that the evaluator raises for it leaves \<open>run_math\<close>
  as it is: no answer is returned.
\<close>

theorem run_math_division_by_zero:
  assumes "evaluate lib ''10/0'' = Inl e"
  shows "run_math lib ''what is 10/0'' = Inl e"
proof -
  have scan: "finditer MATH_SEQ (replace_caret ''what is 10/0'') = ['' '', '' 10/0'']"
    by code_simp
  have expr: "replace_caret (strip (strip (max_by_len ['' '', '' 10/0'']))) = ''10/0''"
    by code_simp
  have safe: "re_fullmatch SAFE_CHARS ''10/0''"
    by code_simp
  show ?thesis
    using assms by (simp add: run_math_def scan eval_math_def expr safe Let_def)
qed

theorem run_math_division_by_zero_witness:
  "run_math \<lparr>evaluate = (\<lambda>_. Inl (Exn ''ZeroDivisionError'' ''division by zero'') :: exn + int),
              float_of = (\<lambda>_. Inr NaN), item_float = (\<lambda>_. Inr NaN)\<rparr> ''what is 10/0''
   = Inl (Exn ''ZeroDivisionError'' ''division by zero'')"
  using run_math_division_by_zero
    [of "\<lparr>evaluate = (\<lambda>_. Inl (Exn ''ZeroDivisionError'' ''division by zero'') :: exn + int),
          float_of = (\<lambda>_. Inr NaN), item_float = (\<lambda>_. Inr NaN)\<rparr>"
        "Exn ''ZeroDivisionError'' ''division by zero''"]
  by simp

text \<open>
  C5, at its input: for \<^verbatim>\<open>hello world\<close> the scan does find a match, the space between
  the two words, so \<open>run_math\<close> does not raise \<^verbatim>\<open>No math expression found.\<close>; the
  match, stripped, is the empty string, and it is \<open>eval_math\<close> that raises on it.
\<close>

theorem run_math_hello_world:
  "run_math lib ''hello world'' = Inl (ValueError ''Invalid characters in expression.'')"
proof -
  have scan: "finditer MATH_SEQ (replace_caret ''hello world'') = ['' '']"
    by code_simp
  have expr: "replace_caret (strip (strip (max_by_len ['' '']))) = []"
    by code_simp
  have unsafe: "\<not> re_fullmatch SAFE_CHARS []"
    by code_simp
  show ?thesis
    by (simp add: run_math_def scan eval_math_def expr unsafe Let_def)
qed

section \<open>Properties of the router\<close>

text \<open>
  C1, at an input where it fails: \<^verbatim>\<open>calc\<close> is a trigger, so the query goes to
  \<open>run_math\<close>, which finds nothing to evaluate and raises; \<open>answer_query\<close> has no handler
  and the exception reaches its caller.
\<close>

theorem answer_query_raises:
  "answer_query w ''calc'' = Inl (ValueError ''No math expression found.'')"
proof -
  have route: "decide_mode ''calc'' = ''math''"
    by code_simp
  have scan: "finditer MATH_SEQ (replace_caret ''calc'') = []"
    by code_simp
  show ?thesis
    by (simp add: answer_query_def route run_math_def scan)
qed

section \<open>Properties of \<open>run_search\<close>\<close>

lemma set_first_seen: "set (first_seen xs) = set xs"
  by (induction xs rule: first_seen.induct) auto

lemma distinct_first_seen: "distinct (first_seen xs)"
  by (induction xs rule: first_seen.induct) (auto simp: set_first_seen)

lemma collect_sources_eq:
  assumes "length srcs < 3"
  shows "collect_sources items (set srcs) srcs =
           take 3 (srcs @ first_seen (filter (\<lambda>u. u \<noteq> [] \<and> u \<notin> set srcs) (map item_url items)))"
  using assms
proof (induction items arbitrary: srcs)
  case Nil
  then show ?case by simp
next
  case (Cons it items)
  let ?u = "item_url it"
  show ?case
  proof (cases "?u \<noteq> [] \<and> ?u \<notin> set srcs")
    case fresh: True
    have filt: "filter (\<lambda>y. y \<noteq> ?u) (filter (\<lambda>u. u \<noteq> [] \<and> u \<notin> set srcs) (map item_url items))
              = filter (\<lambda>u. u \<noteq> [] \<and> u \<notin> set (srcs @ [?u])) (map item_url items)"
      by (auto intro: filter_cong)
    show ?thesis
    proof (cases "length srcs = 2")
      case True
      with fresh show ?thesis by (simp add: Let_def)
    next
      case False
      with Cons.prems have "length (srcs @ [?u]) < 3" by simp
      from Cons.IH[OF this] fresh False filt show ?thesis
        by (simp add: Let_def)
    qed
  next
    case False
    with Cons.prems Cons.IH[of srcs] show ?thesis
      by (auto simp: Let_def)
  qed
qed

lemma collect_sources_spec:
  "collect_sources items {} [] = take 3 (first_seen (filter (\<lambda>u. u \<noteq> []) (map item_url items)))"
  using collect_sources_eq[of "[]" items] by simp

text \<open>
  C6: whatever the search capability returns, the \<^verbatim>\<open>sources\<close> of the response of
  \<open>run_search\<close> have no duplicates and are at most 3; and when the search and the
  summary succeed, they are the first 3 of the URLs of the raw result list (stripped,
  the empty ones left out) in the order in which each is first seen.
\<close>

theorem run_search_sources:
  "\<exists>srcs. run_search cap q n ''sources'' = Some (PList (map PStr srcs)) \<and>
      distinct srcs \<and> length srcs \<le> 3 \<and>
      (\<forall>search res summary.
          tavily cap = Some search \<and>
          fst (search_with_retries cap (search q n)) = Inr res \<and>
          llm cap (prompt_for q (items_of res)) = Inr summary
          \<longrightarrow> srcs = take 3 (first_seen (filter (\<lambda>u. u \<noteq> []) (map item_url (items_of res)))))"
proof (cases "tavily cap")
  case None
  then show ?thesis
    by (intro exI[of _ "[]"]) (simp add: run_search_def mk_payload_apply)
next
  case (Some search)
  show ?thesis
  proof (cases "fst (search_with_retries cap (search q n))")
    case (Inl e)
    with Some show ?thesis
      by (intro exI[of _ "[]"]) (simp add: run_search_def search_failed_def mk_payload_apply)
  next
    case (Inr res)
    show ?thesis
    proof (cases "llm cap (prompt_for q (items_of res))")
      case (Inl e)
      with Some Inr show ?thesis
        by (intro exI[of _ "[]"]) (simp add: run_search_def search_failed_def mk_payload_apply)
    next
      case summary: (Inr summary)
      let ?srcs = "take 3 (first_seen (filter (\<lambda>u. u \<noteq> []) (map item_url (items_of res))))"
      have "run_search cap q n ''sources'' = Some (PList (map PStr ?srcs))"
        using Some Inr summary
        by (simp add: run_search_def Let_def collect_sources_spec mk_payload_apply)
      moreover have "distinct ?srcs"
        by (simp add: distinct_first_seen)
      moreover have "length ?srcs \<le> 3"
        by simp
      moreover have "\<forall>search' res' summary'.
          tavily cap = Some search' \<and>
          fst (search_with_retries cap (search' q n)) = Inr res' \<and>
          llm cap (prompt_for q (items_of res')) = Inr summary'
          \<longrightarrow> ?srcs = take 3 (first_seen (filter (\<lambda>u. u \<noteq> []) (map item_url (items_of res'))))"
        using Some Inr by auto
      ultimately show ?thesis
        by (intro exI[of _ ?srcs]) blast
    qed
  qed
qed

theorem run_search_sources_witness:
  "run_search sample_capabilities ''news'' 5 ''sources''
     = Some (PList [PStr ''http://a'', PStr ''http://b'', PStr ''http://c''])"
proof -
  let ?res = "Wrapper (Some sample_items)"
  have t: "tavily sample_capabilities = Some sample_search"
    by (simp add: sample_capabilities_def)
  have r: "fst (search_with_retries sample_capabilities (sample_search ''news'' 5)) = Inr ?res"
    by (simp add: search_with_retries_def with_retries_def sample_capabilities_def
                  sample_clock_def sample_search_def upt_rec)
  have l: "llm sample_capabilities (prompt_for ''news'' (items_of ?res)) = Inr '' - one ''"
    by (simp add: sample_capabilities_def)
  have v: "take 3 (first_seen (filter (\<lambda>u. u \<noteq> []) (map item_url (items_of ?res))))
             = [''http://a'', ''http://b'', ''http://c'']"
    by code_simp
  from run_search_sources[of sample_capabilities "''news''" 5]
  obtain srcs where s: "run_search sample_capabilities ''news'' 5 ''sources'' = Some (PList (map PStr srcs))"
    and o: "\<forall>search res summary.
          tavily sample_capabilities = Some search \<and>
          fst (search_with_retries sample_capabilities (search ''news'' 5)) = Inr res \<and>
          llm sample_capabilities (prompt_for ''news'' (items_of res)) = Inr summary
          \<longrightarrow> srcs = take 3 (first_seen (filter (\<lambda>u. u \<noteq> []) (map item_url (items_of res))))"
    by blast
  from o t r l have "srcs = take 3 (first_seen (filter (\<lambda>u. u \<noteq> []) (map item_url (items_of ?res))))"
    by blast
  with s v show ?thesis
    by simp
qed

section \<open>Properties of the matcher\<close>



declare rmatch.simps(6) [simp del]





















section \<open>Properties of \<open>decide_mode\<close>\<close>


end
